theory Spec2Isabelle
  imports Main "HOL-Library.Sublist"
begin

section \<open>Data model\<close>

text \<open>
  The interview backend keeps one session object per call in the process-wide
  \<^verbatim>\<open>interviews\<close> map of \<^verbatim>\<open>server.js\<close>. Every Twilio callback reads the session,
  mutates it in place and answers with a TwiML document. The handlers are embedded as
  functions from the map before the request to the map after it, the response sent, and
  the calls made to the outside world, in the order the handler makes them.
\<close>

datatype error = JsError (err_name: string) (err_message: string)

datatype role = System | User | Assistant

record message =
  role :: role
  content :: string

text \<open>
  The phase of a session is one of the four string literals the handlers assign. The code
  never stores an ``ended'' phase: a finished interview is deleted from the map.
\<close>

datatype phase = Introduction | Question1 | Question2 | Qna

record session =
  jobRole :: string
  jobDescription :: string
  history :: "message list"
  phase :: phase
  candidatePhone :: string
  lastActivity :: nat
  recordingUrl :: "string option"
  answer1Url :: "string option"
  answer2Url :: "string option"

type_synonym store = "string \<rightharpoonup> session"

subsection \<open>The outside world\<close>

text \<open>
  The argument of \<^verbatim>\<open>transcribeAudio\<close>: the converted buffer in \<^verbatim>\<open>/process-intro\<close> (line 145,
  which is never reached, see \<open>transcribe_intro\<close> below), the recording URL in the other
  handlers.
\<close>

datatype media = Wav string | Url "string option"

record chat_request =
  model :: string
  messages :: "message list"
  response_format :: "string option"
  temperature :: "string option"

record chat_response =
  choices :: "message list"

record call_params =
  to :: string
  from_number :: string
  url :: string

datatype json =
    JNull
  | JBool bool
  | JNum int
  | JStr string
  | JArr "json list"
  | JObj "(string \<times> json) list"

text \<open>
  What a handler obtains from outside the two source files is a field of the environment
  of the request: the Twilio client, the OpenAI client, \<^verbatim>\<open>transcribeAudio\<close> as imported from
  \<^verbatim>\<open>./interview\<close>, the prompt template of \<^verbatim>\<open>./prompt\<close>, the built-ins \<^verbatim>\<open>JSON.parse\<close>,
  \<^verbatim>\<open>encodeURIComponent\<close> and \<^verbatim>\<open>Date.now\<close>, and the process environment. A call that throws
  (or a promise that rejects) is \<open>Inl\<close>. The prompt template is taken to build its array of
  messages anew at every call.

  \<^verbatim>\<open>downloadAudio\<close> is no field: \<^verbatim>\<open>server.js\<close> uses the name once (line 143) and neither
  defines nor imports it, so the use throws by itself. \<^verbatim>\<open>convertAudio\<close>, on the line after
  it, is never reached and is no field either.
\<close>

record env =
  transcribeAudio :: "media \<Rightarrow> string \<Rightarrow> error + string"
  getInterviewPrompt :: "string \<Rightarrow> string \<Rightarrow> message list"
  chatCompletionsCreate :: "chat_request \<Rightarrow> error + chat_response"
  callsCreate :: "call_params \<Rightarrow> error + string"
  jsonParse :: "string \<Rightarrow> error + json"
  encodeURIComponent :: "string \<Rightarrow> string"
  TWILIO_PHONE_NUMBER :: string
  BACKEND_URL :: string
  now :: nat

datatype ext_call =
    Transcribe media string
  | ChatCompletion chat_request
  | CallsCreate call_params

subsection \<open>Requests and responses\<close>

datatype directive =
    Say string
  | Play string
  | Record (action: string) (maxLength: nat) (finishOnKey: string) (playBeep: bool)
      (timeout: nat)
  | Hangup

text \<open>
  \<open>Unhandled e\<close>: the exception \<open>e\<close> left the handler, so the handler sent nothing.
\<close>

datatype response =
    Status nat string
  | Xml "directive list"
  | Unhandled error

record request =
  query_callSid :: string
  body_CallSid :: string
  body_RecordingUrl :: "string option"
  body_Digits :: "string option"
  query_jobRole :: string
  query_jobDescription :: string

record outcome =
  interviews_after :: store
  sent :: response
  calls :: "ext_call list"

section \<open>The AI response generator\<close>

text \<open>
  \<^verbatim>\<open>getAiResponse(text, role, jobDescription, requestRating, conversationHistory = [])\<close>.
  An omitted \<open>conversationHistory\<close> is \<open>None\<close> and takes the default \<open>[]\<close>; an omitted
  \<open>requestRating\<close> is \<open>False\<close>. The \<^verbatim>\<open>catch\<close> logs and rethrows.
\<close>

definition first_choice_content :: "chat_response \<Rightarrow> error + string" where
  "first_choice_content resp =
     (case choices resp of
        [] \<Rightarrow> Inl (JsError ''TypeError'' ''Cannot read properties of undefined'')
      | c # _ \<Rightarrow> Inr (content c))"

definition ai_messages :: "env \<Rightarrow> string \<Rightarrow> string \<Rightarrow> string \<Rightarrow> message list option \<Rightarrow> message list" where
  "ai_messages e text r jd conversationHistory =
     getInterviewPrompt e r jd
       @ (case conversationHistory of None \<Rightarrow> [] | Some h \<Rightarrow> h)
       @ [\<lparr>role = User, content = text\<rparr>]"

definition ai_request :: "env \<Rightarrow> string \<Rightarrow> string \<Rightarrow> string \<Rightarrow> bool \<Rightarrow> message list option \<Rightarrow> chat_request" where
  "ai_request e text r jd requestRating conversationHistory =
     \<lparr>model = ''gpt-4'',
      messages = ai_messages e text r jd conversationHistory,
      response_format = (if requestRating then Some ''json_object'' else None),
      temperature = None\<rparr>"

definition getAiResponse ::
  "env \<Rightarrow> string \<Rightarrow> string \<Rightarrow> string \<Rightarrow> bool \<Rightarrow> message list option
     \<Rightarrow> (error + string) \<times> ext_call list" where
  "getAiResponse e text r jd requestRating conversationHistory =
     (let req = ai_request e text r jd requestRating conversationHistory
      in (case chatCompletionsCreate e req of
            Inl err \<Rightarrow> Inl err
          | Inr resp \<Rightarrow> first_choice_content resp,
          [ChatCompletion req]))"

section \<open>The callback handlers\<close>

definition push :: "role \<Rightarrow> string \<Rightarrow> session \<Rightarrow> session" where
  "push r text state = state\<lparr>history := history state @ [\<lparr>role = r, content = text\<rparr>]\<rparr>"

definition not_found :: "store \<Rightarrow> outcome" where
  "not_found interviews =
     \<lparr>interviews_after = interviews, sent = Status 404 ''Call not found'', calls = []\<rparr>"

definition voice :: "store \<Rightarrow> request \<Rightarrow> outcome" where
  "voice interviews req =
     (let callSid = body_CallSid req;
          greeting = ''Hello, this is an automated interview for the '' @ query_jobRole req
            @ '' position. Please introduce yourself after the beep.''
      in \<lparr>interviews_after = interviews,
          sent = Xml [Say greeting, Play ''9'',
                      Record (''/process-intro?callSid='' @ callSid) 60 ''#'' True 5],
          calls = []\<rparr>)"

text \<open>
  The \<^verbatim>\<open>try\<close> block of \<^verbatim>\<open>/process-intro\<close>:
  \<^verbatim>\<open>const audioBuffer = await downloadAudio(recordingUrl);\<close>
  \<^verbatim>\<open>const wavBuffer = await convertAudio(audioBuffer);\<close>
  \<^verbatim>\<open>const transcription = await transcribeAudio(wavBuffer, callSid);\<close>
  The name \<^verbatim>\<open>downloadAudio\<close> is bound nowhere in \<^verbatim>\<open>server.js\<close>, so the first statement throws a
  \<^verbatim>\<open>ReferenceError\<close> before anything is called: the block never yields a transcription,
  whatever the request and the environment are, and makes no outside call.
\<close>

definition transcribe_intro :: "env \<Rightarrow> string option \<Rightarrow> string \<Rightarrow> (error + string) \<times> ext_call list" where
  "transcribe_intro e recording callSid =
     (Inl (JsError ''ReferenceError'' ''downloadAudio is not defined''), [])"

text \<open>
  The \<^verbatim>\<open>try\<close> block of the answer handlers. Its \<^verbatim>\<open>catch\<close> only logs, so a failure leaves
  the session as it was before the block.
\<close>

definition push_transcription :: "error + string \<Rightarrow> session \<Rightarrow> session" where
  "push_transcription t state =
     (case t of Inl err \<Rightarrow> state | Inr transcription \<Rightarrow> push User transcription state)"

definition process_intro :: "env \<Rightarrow> store \<Rightarrow> request \<Rightarrow> outcome" where
  "process_intro e interviews req =
     (let callSid = query_callSid req; recording = body_RecordingUrl req
      in case interviews callSid of
           None \<Rightarrow> not_found interviews
         | Some state \<Rightarrow>
             (let state1 = state\<lparr>recordingUrl := recording, phase := Question1\<rparr>;
                  (t, calls1) = transcribe_intro e recording callSid;
                  state2 = push_transcription t state1;
                  (ai, calls2) = getAiResponse e ''Ask first technical question''
                                   (jobRole state2) (jobDescription state2) False None
              in case ai of
                   Inl err \<Rightarrow>
                     \<lparr>interviews_after = interviews(callSid \<mapsto> state2),
                      sent = Unhandled err, calls = calls1 @ calls2\<rparr>
                 | Inr aiResponse \<Rightarrow>
                     \<lparr>interviews_after = interviews(callSid \<mapsto> push Assistant aiResponse state2),
                      sent = Xml [Say aiResponse, Play ''9'',
                                  Record (''/process-answer1?callSid='' @ callSid) 120 ''#'' True 5],
                      calls = calls1 @ calls2\<rparr>))"

definition process_answer1 :: "env \<Rightarrow> store \<Rightarrow> request \<Rightarrow> outcome" where
  "process_answer1 e interviews req =
     (let callSid = query_callSid req; recording = body_RecordingUrl req
      in case interviews callSid of
           None \<Rightarrow> not_found interviews
         | Some state \<Rightarrow>
             (let state1 = state\<lparr>answer1Url := recording, phase := Question2\<rparr>;
                  t = transcribeAudio e (Url recording) callSid;
                  calls1 = [Transcribe (Url recording) callSid];
                  state2 = push_transcription t state1;
                  (ai, calls2) = getAiResponse e ''Ask second technical question''
                                   (jobRole state2) (jobDescription state2) False None
              in case ai of
                   Inl err \<Rightarrow>
                     \<lparr>interviews_after = interviews(callSid \<mapsto> state2),
                      sent = Unhandled err, calls = calls1 @ calls2\<rparr>
                 | Inr aiResponse \<Rightarrow>
                     \<lparr>interviews_after = interviews(callSid \<mapsto> push Assistant aiResponse state2),
                      sent = Xml [Say aiResponse, Play ''9'',
                                  Record (''/process-answer2?callSid='' @ callSid) 120 ''#'' True 5],
                      calls = calls1 @ calls2\<rparr>))"

definition qna_invitation :: string where
  "qna_invitation = ''Thank you for your answers! Do you have any questions for me? If yes, please ask after the beep. If not, just stay silent or press # to end the call.''"

definition process_answer2 :: "env \<Rightarrow> store \<Rightarrow> request \<Rightarrow> outcome" where
  "process_answer2 e interviews req =
     (let callSid = query_callSid req; recording = body_RecordingUrl req
      in case interviews callSid of
           None \<Rightarrow> not_found interviews
         | Some state \<Rightarrow>
             (let state1 = state\<lparr>answer2Url := recording, phase := Qna\<rparr>;
                  t = transcribeAudio e (Url recording) callSid;
                  state2 = push_transcription t state1
              in \<lparr>interviews_after = interviews(callSid \<mapsto> state2),
                  sent = Xml [Say qna_invitation, Play ''9'',
                              Record (''/process-qna?callSid='' @ callSid) 60 ''#'' True 5],
                  calls = [Transcribe (Url recording) callSid]\<rparr>))"

definition closing_remark :: string where
  "closing_remark = ''Thank you for your time! We will review your answers and get back to you soon. Goodbye!''"

definition apology :: string where
  "apology = ''Sorry, I encountered an error. Thank you for your time! Goodbye!''"

definition follow_up :: string where
  "follow_up = ''Do you have any other questions? If yes, please ask after the beep. If not, just stay silent or press # to end the call.''"

text \<open>\<^verbatim>\<open>!recordingUrl\<close>: the field is missing or the empty string.\<close>

definition falsy :: "string option \<Rightarrow> bool" where
  "falsy u = (u = None \<or> u = Some [])"

text \<open>
  \<^verbatim>\<open>/process-qna\<close> has one \<^verbatim>\<open>try\<close> block around the transcription and the generation;
  its \<^verbatim>\<open>catch\<close> says the apology, hangs up and deletes the session. The user entry pushed
  before a failing generation goes with the deleted session.
\<close>

definition process_qna :: "env \<Rightarrow> store \<Rightarrow> request \<Rightarrow> outcome" where
  "process_qna e interviews req =
     (let callSid = query_callSid req; recording = body_RecordingUrl req;
          digits = body_Digits req
      in case interviews callSid of
           None \<Rightarrow> not_found interviews
         | Some state \<Rightarrow>
             if digits = Some ''#'' \<or> falsy recording then
               \<lparr>interviews_after = interviews(callSid := None),
                sent = Xml [Say closing_remark, Hangup], calls = []\<rparr>
             else
               (case transcribeAudio e (Url recording) callSid of
                  Inl err \<Rightarrow>
                    \<lparr>interviews_after = interviews(callSid := None),
                     sent = Xml [Say apology, Hangup],
                     calls = [Transcribe (Url recording) callSid]\<rparr>
                | Inr question \<Rightarrow>
                    (let state1 = push User question state;
                         (ai, calls2) = getAiResponse e (''Answer this question: '' @ question)
                                          (jobRole state1) (jobDescription state1) False None
                     in case ai of
                          Inl err \<Rightarrow>
                            \<lparr>interviews_after = interviews(callSid := None),
                             sent = Xml [Say apology, Hangup],
                             calls = Transcribe (Url recording) callSid # calls2\<rparr>
                        | Inr aiResponse \<Rightarrow>
                            \<lparr>interviews_after =
                               interviews(callSid \<mapsto> push Assistant aiResponse state1),
                             sent = Xml [Say aiResponse, Play ''9'', Say follow_up, Play ''9'',
                                         Record (''/process-qna?callSid='' @ callSid) 60 ''#'' True 5],
                             calls = Transcribe (Url recording) callSid # calls2\<rparr>)))"

text \<open>The routes of the Twilio callbacks, and Express's dispatch on them.\<close>

datatype endpoint = Voice | ProcessIntro | ProcessAnswer1 | ProcessAnswer2 | ProcessQna

fun handle :: "endpoint \<Rightarrow> env \<Rightarrow> store \<Rightarrow> request \<Rightarrow> outcome" where
  "handle Voice e interviews req = voice interviews req"
| "handle ProcessIntro e interviews req = process_intro e interviews req"
| "handle ProcessAnswer1 e interviews req = process_answer1 e interviews req"
| "handle ProcessAnswer2 e interviews req = process_answer2 e interviews req"
| "handle ProcessQna e interviews req = process_qna e interviews req"


type_synonym event = "endpoint \<times> env \<times> request"

text \<open>
  A sequence of callback deliveries, each with the environment it runs in: the map after
  the whole sequence, and the outcome of the last delivery.
\<close>

fun run :: "event list \<Rightarrow> store \<Rightarrow> store" where
  "run [] interviews = interviews"
| "run ((ep, e, req) # evs) interviews = run evs (interviews_after (handle ep e interviews req))"

section \<open>Call initiation\<close>

record candidate =
  phone :: string

record make_call_request =
  body_jobRole :: string
  body_jobDescription :: string
  body_candidates :: "candidate list option"

datatype call_result =
    Placed (result_callSid: string) (result_phone: string)
  | NotPlaced (result_phone: string) (result_error: string)

datatype api_response =
    JsonError nat string
  | Results "call_result list"

record make_call_outcome =
  interviews_created :: store
  replied :: api_response
  placed_calls :: "ext_call list"

definition voice_url :: "env \<Rightarrow> string \<Rightarrow> string \<Rightarrow> string" where
  "voice_url e jr jd =
     ''https://'' @ BACKEND_URL e @ ''/voice?jobRole='' @ encodeURIComponent e jr
       @ ''&jobDescription='' @ encodeURIComponent e jd"

definition new_session :: "env \<Rightarrow> string \<Rightarrow> string \<Rightarrow> candidate \<Rightarrow> session" where
  "new_session e jr jd c =
     \<lparr>jobRole = jr, jobDescription = jd, history = [], phase = Introduction,
      candidatePhone = phone c, lastActivity = now e,
      recordingUrl = None, answer1Url = None, answer2Url = None\<rparr>"

text \<open>
  The loop over the candidates of \<^verbatim>\<open>/make-call\<close>. A call that cannot be placed is
  reported in the results and the loop goes on.
\<close>

definition dial_params :: "env \<Rightarrow> string \<Rightarrow> string \<Rightarrow> candidate \<Rightarrow> call_params" where
  "dial_params e jr jd c =
     \<lparr>to = phone c, from_number = TWILIO_PHONE_NUMBER e, url = voice_url e jr jd\<rparr>"

fun call_candidates ::
  "env \<Rightarrow> string \<Rightarrow> string \<Rightarrow> candidate list \<Rightarrow> store
     \<Rightarrow> store \<times> call_result list \<times> ext_call list" where
  "call_candidates e jr jd [] interviews = (interviews, [], [])"
| "call_candidates e jr jd (c # cs) interviews =
     (let params = dial_params e jr jd c
      in case callsCreate e params of
           Inl err \<Rightarrow>
             (let (interviews', results, cl) = call_candidates e jr jd cs interviews
              in (interviews', NotPlaced (phone c) (err_message err) # results,
                  CallsCreate params # cl))
         | Inr sid \<Rightarrow>
             (let (interviews', results, cl) =
                    call_candidates e jr jd cs (interviews(sid \<mapsto> new_session e jr jd c))
              in (interviews', Placed sid (phone c) # results, CallsCreate params # cl)))"

text \<open>
  \<open>body_candidates = None\<close>: the field is missing or is not an array.
\<close>

definition make_call :: "env \<Rightarrow> store \<Rightarrow> make_call_request \<Rightarrow> make_call_outcome" where
  "make_call e interviews req =
     (case body_candidates req of
        None \<Rightarrow>
          \<lparr>interviews_created = interviews, replied = JsonError 400 ''Invalid candidates data'',
           placed_calls = []\<rparr>
      | Some [] \<Rightarrow>
          \<lparr>interviews_created = interviews, replied = JsonError 400 ''Invalid candidates data'',
           placed_calls = []\<rparr>
      | Some cs \<Rightarrow>
          (let (interviews', results, cl) =
                 call_candidates e (body_jobRole req) (body_jobDescription req) cs interviews
           in \<lparr>interviews_created = interviews', replied = Results results, placed_calls = cl\<rparr>))"

section \<open>Final scoring\<close>

definition nl :: string where
  "nl = [CHR 0x0A]"

definition dq :: string where
  "dq = [CHR 0x22]"

definition scoring_instructions :: "string \<Rightarrow> string \<Rightarrow> string" where
  "scoring_instructions r jd =
     ''You are an interview scoring system. Evaluate the candidate based on:'' @ nl
     @ ''        - Technical Knowledge (0-10)'' @ nl
     @ ''        - Communication Skills (0-10)'' @ nl
     @ ''        '' @ nl
     @ ''        Return your evaluation in this EXACT JSON format:'' @ nl
     @ ''        {'' @ nl
     @ ''          '' @ dq @ ''technicalScore'' @ dq @ '': number,'' @ nl
     @ ''          '' @ dq @ ''communicationScore'' @ dq @ '': number,'' @ nl
     @ ''          '' @ dq @ ''justification'' @ dq @ '': string,'' @ nl
     @ ''          '' @ dq @ ''completionStatus'' @ dq @ '': '' @ dq @ ''complete'' @ dq
         @ ''|'' @ dq @ ''partial'' @ dq @ ''|'' @ dq @ ''abrupt'' @ dq @ nl
     @ ''        }'' @ nl
     @ ''        '' @ nl
     @ ''        Job Role: '' @ r @ nl
     @ ''        Job Description: '' @ jd"

definition scoring_request :: "message list \<Rightarrow> string \<Rightarrow> string \<Rightarrow> chat_request" where
  "scoring_request conversationHistory r jd =
     \<lparr>model = ''gpt-4'',
      messages = \<lparr>role = System, content = scoring_instructions r jd\<rparr> # conversationHistory,
      response_format = None,
      temperature = Some ''0.2''\<rparr>"

text \<open>The \<^verbatim>\<open>try\<close> block of \<^verbatim>\<open>generateFinalScore\<close>: any of its three steps can throw.\<close>

definition generateFinalScore_try :: "env \<Rightarrow> message list \<Rightarrow> string \<Rightarrow> string \<Rightarrow> error + json" where
  "generateFinalScore_try e conversationHistory r jd =
     (case chatCompletionsCreate e (scoring_request conversationHistory r jd) of
        Inl err \<Rightarrow> Inl err
      | Inr resp \<Rightarrow>
          (case first_choice_content resp of
             Inl err \<Rightarrow> Inl err
           | Inr jsonString \<Rightarrow> jsonParse e jsonString))"

definition scoring_failed :: json where
  "scoring_failed =
     JObj [(''technicalScore'', JNum 0),
           (''communicationScore'', JNum 0),
           (''justification'', JStr ''Scoring failed due to system error''),
           (''completionStatus'', JStr ''error'')]"

text \<open>The \<^verbatim>\<open>catch\<close> returns the fixed record; \<open>Inl\<close> would be an exception for the caller.\<close>

definition generateFinalScore :: "env \<Rightarrow> message list \<Rightarrow> string \<Rightarrow> string \<Rightarrow> error + json" where
  "generateFinalScore e conversationHistory r jd =
     (case generateFinalScore_try e conversationHistory r jd of
        Inl err \<Rightarrow> Inr scoring_failed
      | Inr score \<Rightarrow> Inr score)"

section \<open>The order of the phases\<close>

fun phase_rank :: "phase \<Rightarrow> nat" where
  "phase_rank Introduction = 0"
| "phase_rank Question1 = 1"
| "phase_rank Question2 = 2"
| "phase_rank Qna = 3"

text \<open>
  A session that was deleted has ended: it ranks after \<open>Qna\<close>.
\<close>

definition session_rank :: "session option \<Rightarrow> nat" where
  "session_rank s = (case s of None \<Rightarrow> 4 | Some state \<Rightarrow> phase_rank (phase state))"

text \<open>The ranks a call goes through during a sequence of deliveries, the start included.\<close>

fun rank_trace :: "event list \<Rightarrow> store \<Rightarrow> string \<Rightarrow> nat list" where
  "rank_trace [] interviews sid = [session_rank (interviews sid)]"
| "rank_trace ((ep, e, req) # evs) interviews sid =
     session_rank (interviews sid)
       # rank_trace evs (interviews_after (handle ep e interviews req)) sid"

text \<open>
  The handler that the record directive of a phase names: \<^verbatim>\<open>/voice\<close> sends the recording
  of the introduction to \<^verbatim>\<open>/process-intro\<close>, \<^verbatim>\<open>/process-intro\<close> sends the next one to
  \<^verbatim>\<open>/process-answer1\<close>, and so on.
\<close>

fun awaits :: "phase \<Rightarrow> endpoint" where
  "awaits Introduction = ProcessIntro"
| "awaits Question1 = ProcessAnswer1"
| "awaits Question2 = ProcessAnswer2"
| "awaits Qna = ProcessQna"

fun route :: "endpoint \<Rightarrow> string" where
  "route Voice = ''/voice''"
| "route ProcessIntro = ''/process-intro''"
| "route ProcessAnswer1 = ''/process-answer1''"
| "route ProcessAnswer2 = ''/process-answer2''"
| "route ProcessQna = ''/process-qna''"

text \<open>
  A delivery is in order when it goes to the handler that the phase of its session awaits.
  \<^verbatim>\<open>/voice\<close> does not read the session, and a delivery for an unknown call finds none.
\<close>

definition in_order :: "store \<Rightarrow> endpoint \<Rightarrow> request \<Rightarrow> bool" where
  "in_order interviews ep req =
     (case interviews (query_callSid req) of
        None \<Rightarrow> True
      | Some state \<Rightarrow> ep = Voice \<or> ep = awaits (phase state))"

fun in_order_run :: "event list \<Rightarrow> store \<Rightarrow> bool" where
  "in_order_run [] interviews = True"
| "in_order_run ((ep, e, req) # evs) interviews =
     (in_order interviews ep req
      \<and> in_order_run evs (interviews_after (handle ep e interviews req)))"

text \<open>One step along the sequence of the phases: stay, or move to the next one.\<close>

definition forward_step :: "nat \<Rightarrow> nat \<Rightarrow> bool" where
  "forward_step a b = (b = a \<or> b = Suc a)"

section \<open>A concrete call\<close>

text \<open>
  The environment of the repository as it is: the chat completion and the Twilio client
  answer, and \<^verbatim>\<open>transcribeAudio\<close> is not a function, because the \<^verbatim>\<open>./interview\<close> module among the
  sources exports \<^verbatim>\<open>transcribeRecording\<close>, \<^verbatim>\<open>getAiResponse\<close>, \<^verbatim>\<open>generateFinalScore\<close> and
  \<^verbatim>\<open>getQnAResponse\<close>, and no \<^verbatim>\<open>transcribeAudio\<close>. Then the same environment at a later time,
  and one in which the chat completion fails.
\<close>

definition demo_env :: env where
  "demo_env =
     \<lparr>transcribeAudio =
        (\<lambda>m sid. Inl (JsError ''TypeError'' ''transcribeAudio is not a function'')),
      getInterviewPrompt = (\<lambda>r jd. [\<lparr>role = System, content = ''You interview for '' @ r\<rparr>]),
      chatCompletionsCreate =
        (\<lambda>rq. Inr \<lparr>choices = [\<lparr>role = Assistant, content = ''What is a mutex?''\<rparr>]\<rparr>),
      callsCreate = (\<lambda>p. Inr ''CA1''),
      jsonParse = (\<lambda>s. Inl (JsError ''SyntaxError'' ''Unexpected token'')),
      encodeURIComponent = (\<lambda>s. s),
      TWILIO_PHONE_NUMBER = ''+15550100'',
      BACKEND_URL = ''backend.test'',
      now = 100\<rparr>"

definition later_env :: env where
  "later_env = demo_env\<lparr>now := 200\<rparr>"

definition mute_env :: env where
  "mute_env =
     demo_env\<lparr>chatCompletionsCreate := (\<lambda>rq. Inl (JsError ''Error'' ''rate limit''))\<rparr>"

definition demo_make_call :: make_call_request where
  "demo_make_call =
     \<lparr>body_jobRole = ''Backend Engineer'', body_jobDescription = ''Go services'',
      body_candidates = Some [\<lparr>phone = ''+15550123''\<rparr>]\<rparr>"

definition recording :: request where
  "recording =
     \<lparr>query_callSid = ''CA1'', body_CallSid = ''CA1'',
      body_RecordingUrl = Some ''https://api.test/rec1'', body_Digits = None,
      query_jobRole = ''Backend Engineer'', query_jobDescription = ''Go services''\<rparr>"

definition hash_with_recording :: request where
  "hash_with_recording = recording\<lparr>body_Digits := Some ''#''\<rparr>"

definition unknown_call :: request where
  "unknown_call = recording\<lparr>query_callSid := ''CA404''\<rparr>"

definition started :: store where
  "started = interviews_created (make_call demo_env Map.empty demo_make_call)"

definition phase_of :: "store \<Rightarrow> string \<Rightarrow> phase option" where
  "phase_of interviews sid = map_option phase (interviews sid)"

definition history_of :: "store \<Rightarrow> string \<Rightarrow> message list option" where
  "history_of interviews sid = map_option history (interviews sid)"

definition lastActivity_of :: "store \<Rightarrow> string \<Rightarrow> nat option" where
  "lastActivity_of interviews sid = map_option lastActivity (interviews sid)"

definition after_intro :: store where
  "after_intro = interviews_after (process_intro demo_env started recording)"

definition in_qna :: store where
  "in_qna =
     run [(ProcessIntro, demo_env, recording), (ProcessAnswer1, demo_env, recording),
          (ProcessAnswer2, demo_env, recording)] started"

definition session_after_intro :: session where
  "session_after_intro =
     \<lparr>jobRole = ''Backend Engineer'', jobDescription = ''Go services'',
      history = [\<lparr>role = Assistant, content = ''What is a mutex?''\<rparr>],
      phase = Question1, candidatePhone = ''+15550123'', lastActivity = 100,
      recordingUrl = Some ''https://api.test/rec1'', answer1Url = None, answer2Url = None\<rparr>"

definition session_in_qna :: session where
  "session_in_qna =
     \<lparr>jobRole = ''Backend Engineer'', jobDescription = ''Go services'',
      history = [\<lparr>role = Assistant, content = ''What is a mutex?''\<rparr>,
                 \<lparr>role = Assistant, content = ''What is a mutex?''\<rparr>],
      phase = Qna, candidatePhone = ''+15550123'', lastActivity = 100,
      recordingUrl = Some ''https://api.test/rec1'',
      answer1Url = Some ''https://api.test/rec1'',
      answer2Url = Some ''https://api.test/rec1''\<rparr>"

text \<open>
  A whole interview in the order of the record directives: greeting, introduction, two
  answers, one recording in qna, then the terminator digit.
\<close>

definition whole_interview :: "event list" where
  "whole_interview =
     [(Voice, demo_env, recording), (ProcessIntro, demo_env, recording),
      (ProcessAnswer1, demo_env, recording), (ProcessAnswer2, demo_env, recording),
      (ProcessQna, demo_env, recording), (ProcessQna, demo_env, hash_with_recording)]"

section \<open>Facts about single deliveries\<close>

lemmas handler_defs =
  process_intro_def process_answer1_def process_answer2_def process_qna_def voice_def
  not_found_def

lemma push_fields [simp]:
  "phase (push r t s) = phase s"
  "jobRole (push r t s) = jobRole s"
  "jobDescription (push r t s) = jobDescription s"
  "lastActivity (push r t s) = lastActivity s"
  "history (push r t s) = history s @ [\<lparr>role = r, content = t\<rparr>]"
  by (simp_all add: push_def)

lemma push_transcription_fields [simp]:
  "phase (push_transcription t s) = phase s"
  "jobRole (push_transcription t s) = jobRole s"
  "jobDescription (push_transcription t s) = jobDescription s"
  "lastActivity (push_transcription t s) = lastActivity s"
  by (cases t; simp add: push_transcription_def)+

lemma getAiResponse_calls:
  "snd (getAiResponse e text r jd rr h) = [ChatCompletion (ai_request e text r jd rr h)]"
  by (simp add: getAiResponse_def Let_def)

text \<open>A delivery touches no session but the one its \<open>callSid\<close> names.\<close>

lemma handle_other:
  "k \<noteq> query_callSid req \<Longrightarrow> interviews_after (handle ep e interviews req) k = interviews k"
  by (cases ep)
     (auto simp: handler_defs Let_def split: option.splits sum.splits prod.splits)

text \<open>No callback creates a session.\<close>

lemma handle_None:
  "interviews k = None \<Longrightarrow> interviews_after (handle ep e interviews req) k = None"
  by (cases ep)
     (auto simp: handler_defs Let_def split: option.splits sum.splits prod.splits)

lemma handle_history:
  assumes "interviews k = Some s"
    and "interviews_after (handle ep e interviews req) k = Some s'"
  shows "prefix (history s) (history s')"
proof (cases "k = query_callSid req")
  case True
  with assms show ?thesis
    by (cases ep)
       (auto simp: handler_defs Let_def push_def push_transcription_def
             split: option.splits sum.splits prod.splits if_splits)
next
  case False
  with assms show ?thesis by (simp add: handle_other)
qed

lemma handle_lastActivity:
  assumes "interviews k = Some s"
    and "interviews_after (handle ep e interviews req) k = Some s'"
  shows "lastActivity s' = lastActivity s"
proof (cases "k = query_callSid req")
  case True
  with assms show ?thesis
    by (cases ep)
       (auto simp: handler_defs Let_def push_def push_transcription_def
             split: option.splits sum.splits prod.splits if_splits)
next
  case False
  with assms show ?thesis by (simp add: handle_other)
qed

lemma started_eq:
  "started =
     [''CA1'' \<mapsto> new_session demo_env ''Backend Engineer'' ''Go services'' \<lparr>phone = ''+15550123''\<rparr>]"
  by (simp add: started_def make_call_def demo_make_call_def demo_env_def)

text \<open>The concrete call, step by step.\<close>

lemmas demo_defs = handler_defs recording_def demo_env_def Let_def getAiResponse_def
  first_choice_content_def transcribe_intro_def push_transcription_def push_def new_session_def
  ai_request_def ai_messages_def

lemma after_intro_eq: "after_intro = [''CA1'' \<mapsto> session_after_intro]"
  by (simp add: after_intro_def started_eq demo_defs session_after_intro_def)

lemma in_qna_eq: "in_qna = [''CA1'' \<mapsto> session_in_qna]"
  by (simp add: in_qna_def started_eq demo_defs session_in_qna_def)

section \<open>Unknown calls\<close>

text \<open>
  Claim C6. Every handler but the first one (\<^verbatim>\<open>/voice\<close>, which does not read the map)
  answers a call identifier that has no session with 404 ``Call not found'': the map is
  returned as it was, so every session is unchanged, no TwiML is sent and no outside call
  is made.
\<close>

theorem unknown_call_not_found:
  assumes "interviews (query_callSid req) = None" and "ep \<noteq> Voice"
  shows "handle ep e interviews req =
           \<lparr>interviews_after = interviews, sent = Status 404 ''Call not found'', calls = []\<rparr>"
  using assms by (cases ep) (simp_all add: handler_defs)

theorem unknown_call_not_found_witness:
  "started (query_callSid unknown_call) = None \<and> ProcessQna \<noteq> Voice
   \<and> handle ProcessQna demo_env started unknown_call =
       \<lparr>interviews_after = started, sent = Status 404 ''Call not found'', calls = []\<rparr>"
  using unknown_call_not_found
    [where interviews = started and req = unknown_call and ep = ProcessQna and e = demo_env]
  by (simp add: started_eq unknown_call_def recording_def)

section \<open>The terminator digit\<close>

text \<open>
  Claim C10. When \<^verbatim>\<open>/process-qna\<close> receives \<open>Digits = #\<close> for a session, whatever the
  recording reference of the request is, it says the closing remark, hangs up and deletes
  the session; it calls neither the transcription nor the generator, and it changes no
  history.
\<close>

theorem hash_takes_precedence:
  assumes "interviews (query_callSid req) = Some state" and "body_Digits req = Some ''#''"
  shows "process_qna e interviews req =
           \<lparr>interviews_after = interviews(query_callSid req := None),
            sent = Xml [Say closing_remark, Hangup], calls = []\<rparr>"
  using assms by (simp add: process_qna_def)

theorem hash_takes_precedence_witness:
  "in_qna (query_callSid hash_with_recording) \<noteq> None
   \<and> body_Digits hash_with_recording = Some ''#''
   \<and> body_RecordingUrl hash_with_recording = Some ''https://api.test/rec1''
   \<and> process_qna demo_env in_qna hash_with_recording =
       \<lparr>interviews_after = in_qna(''CA1'' := None),
        sent = Xml [Say closing_remark, Hangup], calls = []\<rparr>"
proof -
  have sid: "query_callSid hash_with_recording = ''CA1''"
    and digits: "body_Digits hash_with_recording = Some ''#''"
    and rec: "body_RecordingUrl hash_with_recording = Some ''https://api.test/rec1''"
    by (simp_all add: hash_with_recording_def recording_def)
  obtain state where st: "in_qna (query_callSid hash_with_recording) = Some state"
    by (simp add: in_qna_eq sid)
  from hash_takes_precedence
         [where interviews = in_qna and req = hash_with_recording and e = demo_env, OF st digits]
       st sid digits rec
  show ?thesis by simp
qed

section \<open>Sequences of deliveries\<close>

lemma rank_trace_hd: "hd (rank_trace evs interviews sid) = session_rank (interviews sid)"
  by (cases evs) auto

lemma rank_trace_nonempty: "rank_trace evs interviews sid \<noteq> []"
  by (cases evs) auto

lemma sorted_cons_hd: "sorted xs \<Longrightarrow> xs \<noteq> [] \<Longrightarrow> (x::nat) \<le> hd xs \<Longrightarrow> sorted (x # xs)"
  by (cases xs) auto

lemma run_None: "interviews k = None \<Longrightarrow> run evs interviews k = None"
  by (induction evs arbitrary: interviews) (auto simp: handle_None)

text \<open>A delivery in order keeps the phase of every session or moves it one step on.\<close>

lemma in_order_step:
  assumes "in_order interviews ep req"
  shows "forward_step (session_rank (interviews sid))
           (session_rank (interviews_after (handle ep e interviews req) sid))"
proof (cases "sid = query_callSid req")
  case False
  then show ?thesis by (simp add: handle_other forward_step_def)
next
  case True
  show ?thesis
  proof (cases "interviews sid")
    case None
    then show ?thesis by (simp add: handle_None forward_step_def)
  next
    case (Some state)
    with assms True have ep: "ep = Voice \<or> ep = awaits (phase state)"
      by (simp add: in_order_def)
    show ?thesis
    proof (cases "phase state")
      case Introduction
      with ep Some True show ?thesis
        by (auto simp: handler_defs Let_def forward_step_def session_rank_def
              split: sum.splits prod.splits)
    next
      case Question1
      with ep Some True show ?thesis
        by (auto simp: handler_defs Let_def forward_step_def session_rank_def
              split: sum.splits prod.splits)
    next
      case Question2
      with ep Some True show ?thesis
        by (auto simp: handler_defs Let_def forward_step_def session_rank_def
              split: sum.splits prod.splits)
    next
      case Qna
      with ep Some True show ?thesis
        by (auto simp: handler_defs Let_def forward_step_def session_rank_def
              split: sum.splits prod.splits if_splits)
    qed
  qed
qed

text \<open>
  The record directive a handler sends names the handler that the new phase awaits, for
  the same call: deliveries that follow the directives are in order.
\<close>

lemma record_names_awaited_handler:
  assumes "ep \<noteq> Voice"
    and "in_order interviews ep req"
    and "sent (handle ep e interviews req) = Xml ds"
    and "Record a m k b t \<in> set ds"
  shows "\<exists>state. interviews_after (handle ep e interviews req) (query_callSid req) = Some state
           \<and> a = route (awaits (phase state)) @ ''?callSid='' @ query_callSid req"
proof (cases "interviews (query_callSid req)")
  case None
  with assms show ?thesis by (cases ep) (simp_all add: handler_defs)
next
  case (Some state)
  with assms have ep: "ep = awaits (phase state)"
    by (simp add: in_order_def)
  show ?thesis
  proof (cases "phase state")
    case Introduction
    with ep assms Some show ?thesis
      by (auto simp: handler_defs Let_def split: sum.splits prod.splits)
  next
    case Question1
    with ep assms Some show ?thesis
      by (auto simp: handler_defs Let_def split: sum.splits prod.splits)
  next
    case Question2
    with ep assms Some show ?thesis
      by (auto simp: handler_defs Let_def split: sum.splits prod.splits)
  next
    case Qna
    with ep assms Some show ?thesis
      by (auto simp: handler_defs Let_def split: sum.splits prod.splits if_splits)
  qed
qed

lemma run_history:
  "interviews k = Some s \<Longrightarrow> run evs interviews k = Some s' \<Longrightarrow> prefix (history s) (history s')"
proof (induction evs arbitrary: interviews s)
  case Nil
  then show ?case by simp
next
  case (Cons ev evs)
  obtain ep e req where ev: "ev = (ep, e, req)" by (cases ev)
  let ?next = "interviews_after (handle ep e interviews req)"
  from Cons.prems ev have r: "run evs ?next k = Some s'" by simp
  show ?case
  proof (cases "?next k")
    case None
    with r show ?thesis by (simp add: run_None)
  next
    case (Some s1)
    from handle_history [OF Cons.prems(1) Some] Cons.IH [OF Some r]
    show ?thesis by (rule prefix_order.trans)
  qed
qed

lemma run_lastActivity:
  "interviews k = Some s \<Longrightarrow> run evs interviews k = Some s' \<Longrightarrow> lastActivity s' = lastActivity s"
proof (induction evs arbitrary: interviews s)
  case Nil
  then show ?case by simp
next
  case (Cons ev evs)
  obtain ep e req where ev: "ev = (ep, e, req)" by (cases ev)
  let ?next = "interviews_after (handle ep e interviews req)"
  from Cons.prems ev have r: "run evs ?next k = Some s'" by simp
  show ?case
  proof (cases "?next k")
    case None
    with r show ?thesis by (simp add: run_None)
  next
    case (Some s1)
    from handle_lastActivity [OF Cons.prems(1) Some] Cons.IH [OF Some r]
    show ?thesis by simp
  qed
qed

lemma make_call_single:
  assumes "body_candidates mreq = Some [c]"
    and "callsCreate e (dial_params e (body_jobRole mreq) (body_jobDescription mreq) c) = Inr sid"
  shows "interviews_created (make_call e interviews mreq) =
           interviews(sid \<mapsto> new_session e (body_jobRole mreq) (body_jobDescription mreq) c)"
  using assms by (simp add: make_call_def Let_def)

section \<open>The order of the phases along a call\<close>

text \<open>
  Claim C1, as the code has it. No handler reads the phase: each one assigns the phase it
  stands for. In every sequence of deliveries in which each delivery goes to the handler
  that the phase of its session awaits (the handler named by the last record directive of
  that call), the phase of every session only moves forward through introduction,
  question1, question2, qna and the deletion of the session, one step at a time, and qna
  may repeat.
\<close>

theorem phase_forward_when_in_order:
  assumes "in_order_run evs interviews"
  shows "sorted (rank_trace evs interviews sid)
         \<and> successively forward_step (rank_trace evs interviews sid)"
  using assms
proof (induction evs arbitrary: interviews)
  case Nil
  then show ?case by simp
next
  case (Cons ev evs)
  obtain ep e req where ev: "ev = (ep, e, req)" by (cases ev)
  let ?next = "interviews_after (handle ep e interviews req)"
  from Cons.prems ev have ord: "in_order interviews ep req" and rest: "in_order_run evs ?next"
    by simp_all
  from Cons.IH [OF rest]
  have s: "sorted (rank_trace evs ?next sid)"
    and f: "successively forward_step (rank_trace evs ?next sid)" by simp_all
  from in_order_step [OF ord, of sid e]
  have step: "forward_step (session_rank (interviews sid)) (hd (rank_trace evs ?next sid))"
    by (simp add: rank_trace_hd)
  then have le: "session_rank (interviews sid) \<le> hd (rank_trace evs ?next sid)"
    by (auto simp: forward_step_def)
  have "sorted (session_rank (interviews sid) # rank_trace evs ?next sid)"
    using s rank_trace_nonempty le by (rule sorted_cons_hd)
  moreover from f step
  have "successively forward_step (session_rank (interviews sid) # rank_trace evs ?next sid)"
    by (simp add: successively_Cons)
  ultimately show ?case by (simp add: ev)
qed

theorem phase_forward_when_in_order_witness:
  "in_order_run whole_interview started
   \<and> rank_trace whole_interview started ''CA1'' = [0, 0, 1, 2, 3, 4, 4]
   \<and> sorted (rank_trace whole_interview started ''CA1'')
   \<and> successively forward_step (rank_trace whole_interview started ''CA1'')"
proof -
  have ord: "in_order_run whole_interview started"
    by (simp add: whole_interview_def started_eq demo_defs in_order_def falsy_def
          hash_with_recording_def)
  have tr: "rank_trace whole_interview started ''CA1'' = [0, 0, 1, 2, 3, 4, 4]"
    by (simp add: whole_interview_def started_eq demo_defs session_rank_def falsy_def
          hash_with_recording_def)
  from phase_forward_when_in_order [OF ord, of "''CA1''"] ord tr show ?thesis by simp
qed

text \<open>
  The claim as it is written fails: \<^verbatim>\<open>/process-answer2\<close> followed by \<^verbatim>\<open>/process-intro\<close> for
  the same call takes the session from introduction to qna and back to question1.
\<close>

theorem phase_backward_counterexample:
  "rank_trace [(ProcessAnswer2, demo_env, recording), (ProcessIntro, demo_env, recording)]
     started ''CA1'' = [0, 3, 1]
   \<and> \<not> sorted (rank_trace [(ProcessAnswer2, demo_env, recording),
                            (ProcessIntro, demo_env, recording)] started ''CA1'')"
  by (simp add: started_eq demo_defs session_rank_def)

section \<open>The history only grows\<close>

text \<open>
  Claim C7. Through any sequence of callbacks (a single handler invocation is the sequence
  of length one), as long as the session is in the map, its history is at least as long
  as before, and the entries it had are still there, each at its index, unchanged.
\<close>

theorem history_append_only:
  assumes "interviews sid = Some s" and "run evs interviews sid = Some s'"
  shows "length (history s) \<le> length (history s')
         \<and> take (length (history s)) (history s') = history s"
  using run_history [OF assms] by (auto simp: prefix_def)

theorem history_append_only_witness:
  "after_intro ''CA1'' = Some session_after_intro
   \<and> run [(ProcessAnswer1, demo_env, recording), (ProcessAnswer2, demo_env, recording)]
       after_intro ''CA1'' = Some session_in_qna
   \<and> length (history session_after_intro) \<le> length (history session_in_qna)
   \<and> take (length (history session_after_intro)) (history session_in_qna)
       = history session_after_intro"
proof -
  have a: "after_intro ''CA1'' = Some session_after_intro"
    by (simp add: after_intro_eq)
  have b: "run [(ProcessAnswer1, demo_env, recording), (ProcessAnswer2, demo_env, recording)]
             after_intro ''CA1'' = Some session_in_qna"
    by (simp add: after_intro_eq session_after_intro_def session_in_qna_def demo_defs)
  from history_append_only [OF a b] a b show ?thesis by simp
qed

section \<open>The time of the last activity\<close>

text \<open>
  Claim C9, as the code has it. \<^verbatim>\<open>/make-call\<close> stamps the new session with the time of
  the call initiation, and no callback handler assigns \<open>lastActivity\<close>: after any sequence
  of callbacks the field of a session that is still in the map is the time its call was
  initiated.
\<close>

theorem lastActivity_is_creation_time:
  assumes "body_candidates mreq = Some [c]"
    and "callsCreate e (dial_params e (body_jobRole mreq) (body_jobDescription mreq) c) = Inr sid"
    and "run evs (interviews_created (make_call e interviews mreq)) sid = Some s'"
  shows "lastActivity s' = now e"
proof -
  let ?new = "new_session e (body_jobRole mreq) (body_jobDescription mreq) c"
  have "interviews_created (make_call e interviews mreq) sid = Some ?new"
    by (simp add: make_call_single [OF assms(1,2)])
  from run_lastActivity [OF this assms(3)] show ?thesis
    by (simp add: new_session_def)
qed

theorem lastActivity_is_creation_time_witness:
  "body_candidates demo_make_call = Some [\<lparr>phone = ''+15550123''\<rparr>]
   \<and> callsCreate demo_env
       (dial_params demo_env (body_jobRole demo_make_call) (body_jobDescription demo_make_call)
          \<lparr>phone = ''+15550123''\<rparr>) = Inr ''CA1''
   \<and> run [(ProcessIntro, later_env, recording)]
       (interviews_created (make_call demo_env Map.empty demo_make_call)) ''CA1''
       = Some session_after_intro
   \<and> lastActivity session_after_intro = now demo_env"
proof -
  have a: "body_candidates demo_make_call = Some [\<lparr>phone = ''+15550123''\<rparr>]"
    by (simp add: demo_make_call_def)
  have b: "callsCreate demo_env
       (dial_params demo_env (body_jobRole demo_make_call) (body_jobDescription demo_make_call)
          \<lparr>phone = ''+15550123''\<rparr>) = Inr ''CA1''"
    by (simp add: demo_env_def)
  have c: "run [(ProcessIntro, later_env, recording)]
       (interviews_created (make_call demo_env Map.empty demo_make_call)) ''CA1''
       = Some session_after_intro"
    using started_eq
    by (simp add: started_def later_env_def demo_defs session_after_intro_def)
  from lastActivity_is_creation_time [OF a b c] a b c show ?thesis by simp
qed

text \<open>
  The claim as it is written fails: the introduction processed at time 200 leaves the
  stamp of the call initiation, 100.
\<close>

theorem lastActivity_not_updated_counterexample:
  "lastActivity_of (interviews_after (process_intro later_env started recording)) ''CA1''
     = Some 100
   \<and> now later_env = 200
   \<and> lastActivity_of (interviews_after (process_intro later_env started recording)) ''CA1''
       \<noteq> Some (now later_env)"
  by (simp add: lastActivity_of_def started_eq later_env_def demo_defs)

section \<open>The end-to-end call\<close>

text \<open>
  \<^verbatim>\<open>/process-intro\<close> appends no user entry, in any environment: its history after the
  request is the one before it, followed by the generated question when there is one.
\<close>

lemma process_intro_history:
  assumes "interviews (query_callSid req) = Some state"
  shows "history_of (interviews_after (process_intro e interviews req)) (query_callSid req) =
           Some (history state @
                 (case fst (getAiResponse e ''Ask first technical question''
                              (jobRole state) (jobDescription state) False None) of
                    Inl err \<Rightarrow> []
                  | Inr q \<Rightarrow> [\<lparr>role = Assistant, content = q\<rparr>]))"
proof -
  obtain ai d
    where "getAiResponse e ''Ask first technical question''
             (jobRole state) (jobDescription state) False None = (ai, d)"
    by (rule prod.exhaust)
  with assms show ?thesis
    by (cases ai)
       (simp_all add: history_of_def process_intro_def transcribe_intro_def
          push_transcription_def Let_def)
qed

text \<open>
  Claim C2: a call initiated for one candidate, whose introduction and two answers are
  processed, reaches qna with exactly 6 history entries, 2 after the introduction and 2
  more for each answer. The code does not do it. In the repository as it is, the call
  \<open>CA1\<close> is created empty in the introduction phase, has 1 entry after the introduction,
  and is in qna after the two answers with 2 entries, both questions of the assistant:
  every transcription throws inside its \<^verbatim>\<open>try\<close> block, so no user entry is ever pushed.
\<close>

theorem three_recordings_leave_two_entries:
  "phase_of started ''CA1'' = Some Introduction
   \<and> history_of started ''CA1'' = Some []
   \<and> phase_of after_intro ''CA1'' = Some Question1
   \<and> history_of after_intro ''CA1'' = Some [\<lparr>role = Assistant, content = ''What is a mutex?''\<rparr>]
   \<and> phase_of in_qna ''CA1'' = Some Qna
   \<and> history_of in_qna ''CA1'' =
       Some [\<lparr>role = Assistant, content = ''What is a mutex?''\<rparr>,
             \<lparr>role = Assistant, content = ''What is a mutex?''\<rparr>]
   \<and> map_option length (history_of in_qna ''CA1'') = Some 2"
  by (simp add: phase_of_def history_of_def started_eq new_session_def after_intro_eq
        session_after_intro_def in_qna_eq session_in_qna_def)

section \<open>What the generator is sent\<close>

text \<open>
  \<^verbatim>\<open>getAiResponse\<close> itself puts a history it is given between the persona messages and the
  instruction. The three handlers that call it pass three arguments, so the fifth takes
  its default, the empty list.
\<close>

lemma ai_messages_given_history:
  "ai_messages e text r jd (Some h) =
     getInterviewPrompt e r jd @ h @ [\<lparr>role = User, content = text\<rparr>]"
  by (simp add: ai_messages_def)

lemma ai_messages_default:
  "ai_messages e text r jd None = getInterviewPrompt e r jd @ [\<lparr>role = User, content = text\<rparr>]"
  by (simp add: ai_messages_def)

lemma process_answer1_request:
  assumes "interviews (query_callSid req) = Some state"
  shows "calls (process_answer1 e interviews req) =
           [Transcribe (Url (body_RecordingUrl req)) (query_callSid req),
            ChatCompletion (ai_request e ''Ask second technical question''
                              (jobRole state) (jobDescription state) False None)]"
  using assms
  by (simp add: process_answer1_def Let_def getAiResponse_def split: sum.splits)

text \<open>
  Claim C3: every generation request of a transition carries the whole history of the
  session, in order, between the persona message and the instruction. The code does not
  do it. The session of the concrete call has the first question in its history after
  the introduction; the request that \<^verbatim>\<open>/process-answer1\<close> then sends to the chat completion
  holds the persona message and the instruction, and not that entry.
\<close>

theorem history_not_sent_to_generator:
  "history_of after_intro ''CA1'' = Some [\<lparr>role = Assistant, content = ''What is a mutex?''\<rparr>]
   \<and> calls (process_answer1 demo_env after_intro recording) =
       [Transcribe (Url (Some ''https://api.test/rec1'')) ''CA1'',
        ChatCompletion
          \<lparr>model = ''gpt-4'',
           messages = [\<lparr>role = System, content = ''You interview for Backend Engineer''\<rparr>,
                       \<lparr>role = User, content = ''Ask second technical question''\<rparr>],
           response_format = None, temperature = None\<rparr>]"
  by (simp add: history_of_def after_intro_eq session_after_intro_def demo_defs)

section \<open>Failures inside a transition\<close>

text \<open>
  Claim C4, as the code has it. In \<^verbatim>\<open>/process-intro\<close>, \<^verbatim>\<open>/process-answer1\<close> and
  \<^verbatim>\<open>/process-answer2\<close> a failed transcription appends no user entry and the handler goes
  on: the first two send the generation request and, when it succeeds, append and say the
  question and record the next answer; the third says the invitation and records. In
  \<^verbatim>\<open>/process-qna\<close> the transcription shares its \<^verbatim>\<open>try\<close> block with the generation: a
  failed transcription appends nothing, sends no generation request, and ends the call
  with the apology, a hangup and the deletion of the session.
\<close>

theorem transcription_failure_policy:
  assumes "interviews (query_callSid req) = Some state"
  shows
    "(fst (transcribe_intro e (body_RecordingUrl req) (query_callSid req)) = Inl err
      \<and> fst (getAiResponse e ''Ask first technical question''
               (jobRole state) (jobDescription state) False None) = Inr q
      \<longrightarrow> interviews_after (process_intro e interviews req) =
            interviews(query_callSid req \<mapsto>
              state\<lparr>recordingUrl := body_RecordingUrl req, phase := Question1,
                    history := history state @ [\<lparr>role = Assistant, content = q\<rparr>]\<rparr>)
          \<and> sent (process_intro e interviews req) =
              Xml [Say q, Play ''9'',
                   Record (''/process-answer1?callSid='' @ query_callSid req) 120 ''#'' True 5])
   \<and> (transcribeAudio e (Url (body_RecordingUrl req)) (query_callSid req) = Inl err
      \<and> fst (getAiResponse e ''Ask second technical question''
               (jobRole state) (jobDescription state) False None) = Inr q
      \<longrightarrow> interviews_after (process_answer1 e interviews req) =
            interviews(query_callSid req \<mapsto>
              state\<lparr>answer1Url := body_RecordingUrl req, phase := Question2,
                    history := history state @ [\<lparr>role = Assistant, content = q\<rparr>]\<rparr>)
          \<and> sent (process_answer1 e interviews req) =
              Xml [Say q, Play ''9'',
                   Record (''/process-answer2?callSid='' @ query_callSid req) 120 ''#'' True 5])
   \<and> (transcribeAudio e (Url (body_RecordingUrl req)) (query_callSid req) = Inl err
      \<longrightarrow> interviews_after (process_answer2 e interviews req) =
            interviews(query_callSid req \<mapsto>
              state\<lparr>answer2Url := body_RecordingUrl req, phase := Qna\<rparr>)
          \<and> sent (process_answer2 e interviews req) =
              Xml [Say qna_invitation, Play ''9'',
                   Record (''/process-qna?callSid='' @ query_callSid req) 60 ''#'' True 5])
   \<and> (transcribeAudio e (Url (body_RecordingUrl req)) (query_callSid req) = Inl err
      \<and> body_Digits req \<noteq> Some ''#'' \<and> \<not> falsy (body_RecordingUrl req)
      \<longrightarrow> process_qna e interviews req =
            \<lparr>interviews_after = interviews(query_callSid req := None),
             sent = Xml [Say apology, Hangup],
             calls = [Transcribe (Url (body_RecordingUrl req)) (query_callSid req)]\<rparr>)"
proof (intro conjI impI)
  assume "fst (transcribe_intro e (body_RecordingUrl req) (query_callSid req)) = Inl err
      \<and> fst (getAiResponse e ''Ask first technical question''
               (jobRole state) (jobDescription state) False None) = Inr q"
  then obtain c1 d1
    where "transcribe_intro e (body_RecordingUrl req) (query_callSid req) = (Inl err, c1)"
      and "getAiResponse e ''Ask first technical question''
             (jobRole state) (jobDescription state) False None = (Inr q, d1)"
    by (metis fst_conv surj_pair)
  with assms
  show "interviews_after (process_intro e interviews req) =
            interviews(query_callSid req \<mapsto>
              state\<lparr>recordingUrl := body_RecordingUrl req, phase := Question1,
                    history := history state @ [\<lparr>role = Assistant, content = q\<rparr>]\<rparr>)"
    and "sent (process_intro e interviews req) =
              Xml [Say q, Play ''9'',
                   Record (''/process-answer1?callSid='' @ query_callSid req) 120 ''#'' True 5]"
    by (simp_all add: process_intro_def Let_def push_transcription_def push_def)
next
  assume "transcribeAudio e (Url (body_RecordingUrl req)) (query_callSid req) = Inl err
      \<and> fst (getAiResponse e ''Ask second technical question''
               (jobRole state) (jobDescription state) False None) = Inr q"
  then obtain d1
    where "transcribeAudio e (Url (body_RecordingUrl req)) (query_callSid req) = Inl err"
      and "getAiResponse e ''Ask second technical question''
             (jobRole state) (jobDescription state) False None = (Inr q, d1)"
    by (metis fst_conv surj_pair)
  with assms
  show "interviews_after (process_answer1 e interviews req) =
            interviews(query_callSid req \<mapsto>
              state\<lparr>answer1Url := body_RecordingUrl req, phase := Question2,
                    history := history state @ [\<lparr>role = Assistant, content = q\<rparr>]\<rparr>)"
    and "sent (process_answer1 e interviews req) =
              Xml [Say q, Play ''9'',
                   Record (''/process-answer2?callSid='' @ query_callSid req) 120 ''#'' True 5]"
    by (simp_all add: process_answer1_def Let_def push_transcription_def push_def)
next
  assume "transcribeAudio e (Url (body_RecordingUrl req)) (query_callSid req) = Inl err"
  with assms
  show "interviews_after (process_answer2 e interviews req) =
            interviews(query_callSid req \<mapsto>
              state\<lparr>answer2Url := body_RecordingUrl req, phase := Qna\<rparr>)"
    and "sent (process_answer2 e interviews req) =
              Xml [Say qna_invitation, Play ''9'',
                   Record (''/process-qna?callSid='' @ query_callSid req) 60 ''#'' True 5]"
    by (simp_all add: process_answer2_def Let_def push_transcription_def)
next
  assume "transcribeAudio e (Url (body_RecordingUrl req)) (query_callSid req) = Inl err
      \<and> body_Digits req \<noteq> Some ''#'' \<and> \<not> falsy (body_RecordingUrl req)"
  with assms
  show "process_qna e interviews req =
            \<lparr>interviews_after = interviews(query_callSid req := None),
             sent = Xml [Say apology, Hangup],
             calls = [Transcribe (Url (body_RecordingUrl req)) (query_callSid req)]\<rparr>"
    by (simp add: process_qna_def Let_def)
qed


theorem transcription_failure_policy_witness:
  "started (query_callSid recording) =
     Some (new_session demo_env ''Backend Engineer'' ''Go services'' \<lparr>phone = ''+15550123''\<rparr>)
   \<and> fst (transcribe_intro demo_env (body_RecordingUrl recording) (query_callSid recording))
       = Inl (JsError ''ReferenceError'' ''downloadAudio is not defined'')
   \<and> transcribeAudio demo_env (Url (body_RecordingUrl recording)) (query_callSid recording)
       = Inl (JsError ''TypeError'' ''transcribeAudio is not a function'')
   \<and> body_Digits recording \<noteq> Some ''#'' \<and> \<not> falsy (body_RecordingUrl recording)
   \<and> history_of (interviews_after (process_intro demo_env started recording)) ''CA1''
       = Some [\<lparr>role = Assistant, content = ''What is a mutex?''\<rparr>]
   \<and> sent (process_intro demo_env started recording) =
       Xml [Say ''What is a mutex?'', Play ''9'',
            Record ''/process-answer1?callSid=CA1'' 120 ''#'' True 5]
   \<and> history_of (interviews_after (process_answer1 demo_env started recording)) ''CA1''
       = Some [\<lparr>role = Assistant, content = ''What is a mutex?''\<rparr>]
   \<and> sent (process_answer1 demo_env started recording) =
       Xml [Say ''What is a mutex?'', Play ''9'',
            Record ''/process-answer2?callSid=CA1'' 120 ''#'' True 5]
   \<and> history_of (interviews_after (process_answer2 demo_env started recording)) ''CA1''
       = Some []
   \<and> sent (process_answer2 demo_env started recording) =
       Xml [Say qna_invitation, Play ''9'', Record ''/process-qna?callSid=CA1'' 60 ''#'' True 5]
   \<and> process_qna demo_env started recording =
       \<lparr>interviews_after = started(''CA1'' := None), sent = Xml [Say apology, Hangup],
        calls = [Transcribe (Url (Some ''https://api.test/rec1'')) ''CA1'']\<rparr>"
proof -
  let ?new = "new_session demo_env ''Backend Engineer'' ''Go services'' \<lparr>phone = ''+15550123''\<rparr>"
  let ?e1 = "JsError ''ReferenceError'' ''downloadAudio is not defined''"
  let ?e2 = "JsError ''TypeError'' ''transcribeAudio is not a function''"
  have sid: "query_callSid recording = ''CA1''"
    and url: "body_RecordingUrl recording = Some ''https://api.test/rec1''"
    by (simp_all add: recording_def)
  have st: "started (query_callSid recording) = Some ?new"
    by (simp add: started_eq sid)
  have t1: "fst (transcribe_intro demo_env (body_RecordingUrl recording) (query_callSid recording))
              = Inl ?e1"
    by (simp add: transcribe_intro_def demo_env_def)
  have t2: "transcribeAudio demo_env (Url (body_RecordingUrl recording)) (query_callSid recording)
              = Inl ?e2"
    by (simp add: demo_env_def)
  have dg: "body_Digits recording \<noteq> Some ''#''" and nf: "\<not> falsy (body_RecordingUrl recording)"
    by (simp_all add: recording_def falsy_def)
  have g1: "fst (getAiResponse demo_env ''Ask first technical question''
                   (jobRole ?new) (jobDescription ?new) False None) = Inr ''What is a mutex?''"
    and g2: "fst (getAiResponse demo_env ''Ask second technical question''
                   (jobRole ?new) (jobDescription ?new) False None) = Inr ''What is a mutex?''"
    by (simp_all add: getAiResponse_def Let_def first_choice_content_def demo_env_def
          demo_env_def)
  note pol = transcription_failure_policy
    [where interviews = started and req = recording and e = demo_env and q = "''What is a mutex?''",
     OF st]
  from pol [where err = ?e1] t1 g1
  have i: "history_of (interviews_after (process_intro demo_env started recording)) ''CA1''
             = Some [\<lparr>role = Assistant, content = ''What is a mutex?''\<rparr>]
           \<and> sent (process_intro demo_env started recording) =
               Xml [Say ''What is a mutex?'', Play ''9'',
                    Record ''/process-answer1?callSid=CA1'' 120 ''#'' True 5]"
    by (simp add: history_of_def sid new_session_def)
  from pol [where err = ?e2] t2 g2 dg nf
  have ii: "history_of (interviews_after (process_answer1 demo_env started recording)) ''CA1''
             = Some [\<lparr>role = Assistant, content = ''What is a mutex?''\<rparr>]
           \<and> sent (process_answer1 demo_env started recording) =
               Xml [Say ''What is a mutex?'', Play ''9'',
                    Record ''/process-answer2?callSid=CA1'' 120 ''#'' True 5]
           \<and> history_of (interviews_after (process_answer2 demo_env started recording)) ''CA1''
               = Some []
           \<and> sent (process_answer2 demo_env started recording) =
               Xml [Say qna_invitation, Play ''9'',
                    Record ''/process-qna?callSid=CA1'' 60 ''#'' True 5]
           \<and> process_qna demo_env started recording =
               \<lparr>interviews_after = started(''CA1'' := None), sent = Xml [Say apology, Hangup],
                calls = [Transcribe (Url (Some ''https://api.test/rec1'')) ''CA1'']\<rparr>"
    by (simp add: history_of_def sid url new_session_def)
  from st t1 t2 dg nf i ii show ?thesis by simp
qed

text \<open>
  The claim as it is written fails in \<^verbatim>\<open>/process-qna\<close>: with a recording that cannot be
  transcribed, the session in qna is deleted, the caller hears the apology and the
  hangup, and no generation request is sent.
\<close>

theorem qna_transcription_failure_counterexample:
  "sent (process_qna demo_env in_qna recording) = Xml [Say apology, Hangup]
   \<and> interviews_after (process_qna demo_env in_qna recording) ''CA1'' = None
   \<and> calls (process_qna demo_env in_qna recording) =
       [Transcribe (Url (Some ''https://api.test/rec1'')) ''CA1'']"
  by (simp add: in_qna_eq process_qna_def recording_def demo_env_def falsy_def)

text \<open>
  What \<^verbatim>\<open>/process-qna\<close> does when the generation fails: its \<^verbatim>\<open>catch\<close> apologises, hangs up
  and deletes the session.
\<close>

lemma process_qna_generation_failure:
  assumes "interviews (query_callSid req) = Some state"
    and "body_Digits req \<noteq> Some ''#''" and "\<not> falsy (body_RecordingUrl req)"
    and "transcribeAudio e (Url (body_RecordingUrl req)) (query_callSid req) = Inr question"
    and "fst (getAiResponse e (''Answer this question: '' @ question)
                (jobRole state) (jobDescription state) False None) = Inl err"
  shows "interviews_after (process_qna e interviews req) = interviews(query_callSid req := None)
         \<and> sent (process_qna e interviews req) = Xml [Say apology, Hangup]"
proof -
  obtain d where "getAiResponse e (''Answer this question: '' @ question)
                    (jobRole state) (jobDescription state) False None = (Inl err, d)"
    using assms(5) by (metis fst_conv surj_pair)
  with assms(1-4) show ?thesis
    by (simp add: process_qna_def Let_def)
qed

text \<open>
  Claim C5: in every handler a failed generation ends the call with the apology, a hangup
  and the deletion of the session. The code does not do it in \<^verbatim>\<open>/process-intro\<close> (nor, in
  the same way, in \<^verbatim>\<open>/process-answer1\<close>): the call of \<^verbatim>\<open>getAiResponse\<close> stands outside every
  \<^verbatim>\<open>try\<close>. With a failing chat completion the exception leaves the handler: nothing is
  said, nothing hangs up, and the session stays in the map, already in question1.
\<close>

theorem generation_failure_escapes_intro:
  "sent (process_intro mute_env started recording) = Unhandled (JsError ''Error'' ''rate limit'')
   \<and> phase_of (interviews_after (process_intro mute_env started recording)) ''CA1''
       = Some Question1
   \<and> history_of (interviews_after (process_intro mute_env started recording)) ''CA1''
       = Some []"
  by (simp add: phase_of_def history_of_def started_eq mute_env_def demo_defs)

section \<open>Scoring\<close>

lemma generateFinalScore_returns: "\<exists>score. generateFinalScore e h r jd = Inr score"
  by (simp add: generateFinalScore_def split: sum.splits)

text \<open>
  Claim C8. When the chat completion fails, when its response has no first choice to
  read, or when \<^verbatim>\<open>JSON.parse\<close> rejects the content, \<^verbatim>\<open>generateFinalScore\<close> returns the
  record with both scores 0, the fixed justification and the completion status
  ``error''; it returns it as a value, so no exception reaches the caller.
\<close>

theorem generateFinalScore_error_sentinel:
  assumes "chatCompletionsCreate e (scoring_request h r jd) = Inl err
     \<or> (\<exists>resp. chatCompletionsCreate e (scoring_request h r jd) = Inr resp
           \<and> first_choice_content resp = Inl err)
     \<or> (\<exists>resp jsonString. chatCompletionsCreate e (scoring_request h r jd) = Inr resp
           \<and> first_choice_content resp = Inr jsonString
           \<and> jsonParse e jsonString = Inl err)"
  shows "generateFinalScore e h r jd =
           Inr (JObj [(''technicalScore'', JNum 0),
                      (''communicationScore'', JNum 0),
                      (''justification'', JStr ''Scoring failed due to system error''),
                      (''completionStatus'', JStr ''error'')])"
  using assms
  by (auto simp: generateFinalScore_def generateFinalScore_try_def scoring_failed_def)

theorem generateFinalScore_error_sentinel_witness:
  "chatCompletionsCreate mute_env (scoring_request (history session_in_qna) ''Backend Engineer''
      ''Go services'') = Inl (JsError ''Error'' ''rate limit'')
   \<and> generateFinalScore mute_env (history session_in_qna) ''Backend Engineer'' ''Go services''
       = Inr scoring_failed
   \<and> chatCompletionsCreate demo_env (scoring_request (history session_in_qna)
        ''Backend Engineer'' ''Go services'')
       = Inr \<lparr>choices = [\<lparr>role = Assistant, content = ''What is a mutex?''\<rparr>]\<rparr>
   \<and> jsonParse demo_env ''What is a mutex?'' = Inl (JsError ''SyntaxError'' ''Unexpected token'')
   \<and> generateFinalScore demo_env (history session_in_qna) ''Backend Engineer'' ''Go services''
       = Inr scoring_failed"
proof -
  let ?h = "history session_in_qna"
  let ?resp = "\<lparr>choices = [\<lparr>role = Assistant, content = ''What is a mutex?''\<rparr>]\<rparr>"
  have a: "chatCompletionsCreate mute_env (scoring_request ?h ''Backend Engineer'' ''Go services'')
             = Inl (JsError ''Error'' ''rate limit'')"
    by (simp add: mute_env_def demo_env_def)
  have b: "chatCompletionsCreate demo_env (scoring_request ?h ''Backend Engineer'' ''Go services'')
             = Inr ?resp"
    by (simp add: demo_env_def)
  have c: "first_choice_content ?resp = Inr ''What is a mutex?''"
    by (simp add: first_choice_content_def)
  have d: "jsonParse demo_env ''What is a mutex?'' = Inl (JsError ''SyntaxError'' ''Unexpected token'')"
    by (simp add: demo_env_def)
  have "generateFinalScore mute_env ?h ''Backend Engineer'' ''Go services'' = Inr scoring_failed"
    using generateFinalScore_error_sentinel
      [where e = mute_env and h = ?h and r = "''Backend Engineer''" and jd = "''Go services''"
         and err = "JsError ''Error'' ''rate limit''"] a
    by (simp add: scoring_failed_def)
  moreover
  have "generateFinalScore demo_env ?h ''Backend Engineer'' ''Go services'' = Inr scoring_failed"
    using generateFinalScore_error_sentinel
      [where e = demo_env and h = ?h and r = "''Backend Engineer''" and jd = "''Go services''"
         and err = "JsError ''SyntaxError'' ''Unexpected token''"] b c d
    by (simp add: scoring_failed_def)
  ultimately show ?thesis using a b d by simp
qed

end
